theory Spec2Isabelle
  imports Complex_Main
begin

section \<open>KiroGate: routes and request middleware\<close>

text \<open>
  A shallow embedding of \<^verbatim>\<open>kiro_gateway/routes.py\<close> and
  \<^verbatim>\<open>kiro_gateway/middleware.py\<close>. Every coroutine of the source is a function
  from the state of the process (\<open>world\<close>) to a result and the new state; a raised
  exception is the left injection of the result. Text that the source only formats
  (log lines, rendered numbers) is kept as structured values, so that no property
  depends on how Python prints a float.
\<close>

subsection \<open>Exceptions\<close>

text \<open>
  Python separates the classes below \<^verbatim>\<open>Exception\<close>, which
  \<^verbatim>\<open>except Exception\<close> catches, from the other subclasses of
  \<^verbatim>\<open>BaseException\<close> (\<^verbatim>\<open>asyncio.CancelledError\<close> since Python 3.8,
  \<^verbatim>\<open>KeyboardInterrupt\<close>, \<^verbatim>\<open>SystemExit\<close>), which it lets through.
  Synchronous library calls of the source raise values of type \<open>exception\<close>; an
  \<^verbatim>\<open>await\<close> can end with any \<open>base_exception\<close>.
\<close>

datatype exception =
    HTTPException int string
  | TypeError string
  | RuntimeError string
  | RateLimitExceeded int
  | RequestValidationError
  | OtherException string string

datatype base_exception =
    Exception exception
  | CancelledError
  | OtherBaseException string string

text \<open>\<^verbatim>\<open>type(e).__name__\<close>\<close>

fun type_name :: "exception \<Rightarrow> string" where
  "type_name (HTTPException _ _) = ''HTTPException''"
| "type_name (TypeError _) = ''TypeError''"
| "type_name (RuntimeError _) = ''RuntimeError''"
| "type_name (RateLimitExceeded _) = ''RateLimitExceeded''"
| "type_name RequestValidationError = ''RequestValidationError''"
| "type_name (OtherException n _) = n"

type_synonym 'a result = "base_exception + 'a"

subsection \<open>Configuration\<close>

text \<open>
  The constants imported from \<^verbatim>\<open>kiro_gateway.config\<close>; the module is not part of
  the sources, so they are parameters of every definition that reads them.
\<close>

record config =
  PROXY_API_KEY :: string
  AVAILABLE_MODELS :: "string list"
  APP_VERSION :: string
  RATE_LIMIT_PER_MINUTE :: int

subsection \<open>Requests and responses\<close>

datatype json =
    JNull
  | JBool bool
  | JInt int
  | JString string
  | JArray "json list"
  | JObject "(string \<times> json) list"

text \<open>
  The body of a request as the framework finds it when it reads it: no bytes, bytes that
  decode as JSON, bytes that are not JSON, or bytes that cannot be read as text at all.
\<close>

datatype request_body = NoBody | JSONBody json | MalformedJSON | UnreadableBody

text \<open>
  \<open>req_headers\<close> is the lookup \<^verbatim>\<open>request.headers.get\<close>; \<open>client_host\<close> is
  \<^verbatim>\<open>request.client.host\<close>, \<open>None\<close> when the server gives no client address.
\<close>

record request =
  http_method :: string
  url_path :: string
  url_query :: string
  req_headers :: "string \<rightharpoonup> string"
  req_body :: request_body
  client_host :: "string option"

text \<open>
  A response header is a string, or the rendering \<^verbatim>\<open>str(round(t, 4))\<close> of an
  elapsed time, kept symbolic.
\<close>

datatype header_value = HStr string | HRound4 real

record response =
  status_code :: int
  resp_headers :: "string \<rightharpoonup> header_value"
  content :: json


record open_ai_model =
  model_id :: string
  owned_by :: string
  description :: string

record model_list =
  data :: "open_ai_model list"

subsection \<open>Logging\<close>

datatype level = INFO | WARNING | ERROR

text \<open>One constructor per f-string of the source, with the values it interpolates.\<close>

datatype message =
    RequestStarted string string string
  | RequestCompleted string string int real
  | RequestFailed string string exception real
  | InvalidApiKey
  | InvalidApiKeyAnthropic
  | RequestToModels
  | RefreshTriggerFailed exception
  | RequestToChatCompletions string bool
  | RequestToMessages string bool

record log_record =
  lr_level :: level
  lr_request_id :: "string option"
  lr_message :: message

subsection \<open>Collaborators that are not part of the sources\<close>

text \<open>
  Modelled from the spec: the metrics sink (\<^verbatim>\<open>kiro_gateway.metrics\<close>, which is
  not part of the sources); it
  "receives named counters (request count by endpoint/status/model, error count by kind,
  active-request gauge) and a latency histogram per endpoint". The two gauges that the
  health endpoint sets are fields as well.
\<close>

record metrics =
  request_count :: "string \<times> int \<times> string \<Rightarrow> nat"
  error_count :: "string \<Rightarrow> nat"
  latency :: "string \<Rightarrow> real list"
  active_connections :: int
  cache_size_gauge :: nat
  token_valid_gauge :: bool

text \<open>
  Modelled from the spec: a model descriptor of the catalog, "{id: string, ownerTag:
  string, description: string}".
\<close>

record model_descriptor =
  md_id :: string
  md_owner_tag :: string
  md_description :: string

text \<open>
  Modelled from the spec: the model catalog cache (\<^verbatim>\<open>ModelInfoCache\<close> of
  \<^verbatim>\<open>kiro_gateway.cache\<close>, which is not part of the sources): a snapshot, "an
  ordered sequence of ModelDescriptor plus {lastRefreshedAt: timestamp}", with the time to
  live of the staleness policy.
\<close>

record model_info_cache =
  snapshot :: "model_descriptor list"
  last_update_time :: "real option"
  cache_ttl :: real

text \<open>
  Modelled from the spec: \<^verbatim>\<open>is_empty()\<close> of the cache; "a snapshot is either
  empty (never refreshed) or contains at least the statically configured model
  identifiers".
\<close>

definition is_empty :: "model_info_cache \<Rightarrow> bool" where
  "is_empty c = (snapshot c = [])"

text \<open>
  Modelled from the spec: \<^verbatim>\<open>is_stale()\<close> of the cache;
  "\<^verbatim>\<open>isStale(ttl)\<close> is \<^verbatim>\<open>now - lastRefreshedAt > ttl\<close>". A cache that was
  never refreshed counts as stale.
\<close>

definition is_stale :: "model_info_cache \<Rightarrow> real \<Rightarrow> bool" where
  "is_stale c now = (case last_update_time c of None \<Rightarrow> True | Some t \<Rightarrow> now - t > cache_ttl c)"

text \<open>
  Modelled from the spec: the property \<^verbatim>\<open>size\<close> of the cache, the number of
  descriptors in the snapshot.
\<close>

definition cache_size :: "model_info_cache \<Rightarrow> nat" where
  "cache_size c = length (snapshot c)"

text \<open>
  Modelled from the spec: the credential held by \<^verbatim>\<open>KiroAuthManager\<close>
  (\<^verbatim>\<open>kiro_gateway.auth\<close>, which is not part of the sources): "{token: opaque
  string, expiresAt: timestamp}" and the safety margin of the expiry check. The token is
  the attribute \<^verbatim>\<open>_access_token\<close>, \<open>None\<close> while no credential is held.
\<close>

record kiro_auth_manager =
  access_token :: "string option"
  expires_at :: real
  safety_margin :: real

text \<open>Coroutines handed to the event loop.\<close>

datatype task = RefreshModelCache

subsection \<open>The state of the process\<close>

text \<open>
  \<open>clock\<close> is what \<^verbatim>\<open>time.time()\<close> returns now; \<open>uuid_source\<close> and
  \<open>uuid_count\<close> give the results of successive \<^verbatim>\<open>uuid.uuid4()\<close> calls;
  \<open>logs\<close> is what the loguru sink has received and \<open>log_context\<close> the request id
  bound by \<^verbatim>\<open>logger.contextualize\<close>; \<open>loop_tasks\<close> is the queue of the running
  event loop (\<open>None\<close>: no loop is running); \<open>state_request_id\<close> and \<open>state_model\<close>
  are the attributes of \<^verbatim>\<open>request.state\<close>; \<open>limiter_hits\<close> is the storage
  of the rate limiter, the times of the requests it has admitted for each limited
  endpoint and client; the other fields are the objects of \<^verbatim>\<open>app.state\<close> and the
  metrics collector.
\<close>

record world =
  clock :: real
  uuid_source :: "nat \<Rightarrow> string"
  uuid_count :: nat
  logs :: "log_record list"
  log_context :: "string option"
  metrics_sink :: metrics
  model_cache :: model_info_cache
  auth_manager :: kiro_auth_manager
  loop_tasks :: "task list option"
  state_request_id :: "string option"
  state_model :: "string option"
  limiter_hits :: "string \<times> string \<Rightarrow> real list"

type_synonym 'a io = "world \<Rightarrow> 'a result \<times> world"

definition logger_emit :: "level \<Rightarrow> message \<Rightarrow> world \<Rightarrow> world" where
  "logger_emit l m w =
     w\<lparr>logs := logs w @ [\<lparr>lr_level = l, lr_request_id = log_context w, lr_message = m\<rparr>]\<rparr>"

definition logger_info :: "message \<Rightarrow> world \<Rightarrow> world" where
  "logger_info = logger_emit INFO"

definition logger_warning :: "message \<Rightarrow> world \<Rightarrow> world" where
  "logger_warning = logger_emit WARNING"

definition logger_error :: "message \<Rightarrow> world \<Rightarrow> world" where
  "logger_error = logger_emit ERROR"

text \<open>
  \<^verbatim>\<open>asyncio.create_task\<close>: the coroutine is queued on the running loop and the call
  returns at once; with no running loop it raises \<^verbatim>\<open>RuntimeError\<close>.
\<close>

definition create_task :: "task \<Rightarrow> world \<Rightarrow> exception + world" where
  "create_task t w =
     (case loop_tasks w of
        None \<Rightarrow> Inl (RuntimeError ''no running event loop'')
      | Some ts \<Rightarrow> Inr (w\<lparr>loop_tasks := Some (ts @ [t])\<rparr>))"

subsection \<open>\<^verbatim>\<open>routes.py\<close>: the model list\<close>

definition static_model :: "string \<Rightarrow> open_ai_model" where
  "static_model m =
     \<lparr>model_id = m, owned_by = ''anthropic'', description = ''Claude model via Kiro API''\<rparr>"

definition get_models :: "config \<Rightarrow> request \<Rightarrow> model_list io" where
  "get_models cfg req w =
     (let w1 = logger_info RequestToModels w;
          mc = model_cache w1;
          w2 = (if is_empty mc \<or> is_stale mc (clock w1)
                then (case create_task RefreshModelCache w1 of
                        Inr w' \<Rightarrow> w'
                      | Inl e \<Rightarrow> logger_warning (RefreshTriggerFailed e) w1)
                else w1)
      in (Inr \<lparr>data = map static_model (AVAILABLE_MODELS cfg)\<rparr>, w2))"

subsection \<open>\<^verbatim>\<open>routes.py\<close>: API keys\<close>

text \<open>
  Header values reach the application decoded as Latin-1, one \<open>char\<close> per code point.
  \<^verbatim>\<open>secrets.compare_digest\<close> compares two \<^verbatim>\<open>str\<close> only when both are ASCII
  and raises \<^verbatim>\<open>TypeError\<close> otherwise.
\<close>

definition is_ascii :: "string \<Rightarrow> bool" where
  "is_ascii s = list_all (\<lambda>c. \<not> digit7 c) s"


definition compare_digest :: "string \<Rightarrow> string \<Rightarrow> exception + bool" where
  "compare_digest a b =
     (if is_ascii a \<and> is_ascii b then Inr (a = b)
      else Inl (TypeError ''comparing strings with non-ASCII characters is not supported''))"

text \<open>
  \<^verbatim>\<open>h and secrets.compare_digest(h, s)\<close>: a header that is missing or empty is
  falsy, and then the comparison is not evaluated.
\<close>

definition and_compare_digest :: "string option \<Rightarrow> string \<Rightarrow> exception + bool" where
  "and_compare_digest h s =
     (case h of
        None \<Rightarrow> Inr False
      | Some v \<Rightarrow> if v = [] then Inr False else compare_digest v s)"

text \<open>
  \<^verbatim>\<open>not auth_header or not compare_digest(...)\<close> evaluates its operands as
  \<^verbatim>\<open>auth_header and compare_digest(...)\<close> does and is its negation.
\<close>

definition verify_api_key :: "config \<Rightarrow> string option \<Rightarrow> world \<Rightarrow> (exception + bool) \<times> world" where
  "verify_api_key cfg auth_header w =
     (case and_compare_digest auth_header (''Bearer '' @ PROXY_API_KEY cfg) of
        Inl e \<Rightarrow> (Inl e, w)
      | Inr ok \<Rightarrow>
          if \<not> ok
          then (Inl (HTTPException 401 ''Invalid or missing API Key''),
                logger_warning InvalidApiKey w)
          else (Inr True, w))"

definition verify_anthropic_api_key ::
  "config \<Rightarrow> string option \<Rightarrow> string option \<Rightarrow> world \<Rightarrow> (exception + bool) \<times> world" where
  "verify_anthropic_api_key cfg x_api_key auth_header w =
     (case and_compare_digest x_api_key (PROXY_API_KEY cfg) of
        Inl e \<Rightarrow> (Inl e, w)
      | Inr ok1 \<Rightarrow>
          if ok1 then (Inr True, w)
          else (case and_compare_digest auth_header (''Bearer '' @ PROXY_API_KEY cfg) of
                  Inl e \<Rightarrow> (Inl e, w)
                | Inr ok2 \<Rightarrow>
                    if ok2 then (Inr True, w)
                    else (Inl (HTTPException 401 ''Invalid or missing API Key''),
                          logger_warning InvalidApiKeyAnthropic w)))"

text \<open>
  The routes of the router and the dependencies their decorators declare. For a route
  whose endpoint function has a body parameter (the two POST routes) FastAPI first reads
  and decodes the body: bytes that are not JSON end the request with
  \<^verbatim>\<open>RequestValidationError\<close> (status 422), any other failure to read them with
  \<^verbatim>\<open>HTTPException\<close> 400. Only then it solves the dependencies of the route, in
  order; an exception raised by a dependency ends the request there. What follows the
  dependencies (the validation of the decoded body against the request model, then the
  decorated endpoint function) is the argument \<open>endpoint\<close> of \<open>call_route\<close>.
\<close>

datatype route =
    Root | Health | GetMetrics | GetPrometheusMetrics
  | GetModels | ChatCompletions | AnthropicMessages









subsection \<open>\<^verbatim>\<open>routes.py\<close>: rate limiting\<close>









subsection \<open>\<^verbatim>\<open>routes.py\<close>: health\<close>

text \<open>
  Modelled from the spec: the expiry check of the token session, "exposed read-only for
  health reporting, defined as \<^verbatim>\<open>now >= expiresAt - safetyMargin\<close>".
\<close>

definition is_token_expiring_soon :: "kiro_auth_manager \<Rightarrow> real \<Rightarrow> exception + bool" where
  "is_token_expiring_soon am now = Inr (now \<ge> expires_at am - safety_margin am)"

text \<open>Modelled from the spec: \<^verbatim>\<open>metrics.set_cache_size\<close>, which sets a gauge of the sink.\<close>

definition set_cache_size :: "nat \<Rightarrow> world \<Rightarrow> world" where
  "set_cache_size n w = w\<lparr>metrics_sink := (metrics_sink w)\<lparr>cache_size_gauge := n\<rparr>\<rparr>"

text \<open>Modelled from the spec: \<^verbatim>\<open>metrics.set_token_valid\<close>, which sets a gauge of the sink.\<close>

definition set_token_valid :: "bool \<Rightarrow> world \<Rightarrow> world" where
  "set_token_valid b w = w\<lparr>metrics_sink := (metrics_sink w)\<lparr>token_valid_gauge := b\<rparr>\<rparr>"

text \<open>The dictionary that the health endpoint returns; the timestamp is kept as the clock value.\<close>

record health_report =
  h_status :: string
  h_timestamp :: real
  h_version :: string
  h_token_valid :: bool
  h_cache_size :: nat
  h_cache_last_update :: "real option"

text \<open>
  The expiry check of the auth manager is a parameter \<open>expiring_soon\<close>: a read of the
  manager and the clock that returns a truth value or raises. A token that is
  \<^verbatim>\<open>None\<close> or empty is falsy, and then the check is not called.
\<close>

definition health ::
  "config \<Rightarrow> (kiro_auth_manager \<Rightarrow> real \<Rightarrow> exception + bool) \<Rightarrow> request \<Rightarrow> health_report io" where
  "health cfg expiring_soon req w =
     (let am = auth_manager w;
          mc = model_cache w;
          token_valid =
            (case access_token am of
               None \<Rightarrow> False
             | Some t \<Rightarrow>
                 if t = [] then False
                 else (case expiring_soon am (clock w) of
                         Inl e \<Rightarrow> False
                       | Inr soon \<Rightarrow> \<not> soon));
          w1 = set_cache_size (cache_size mc) w;
          w2 = set_token_valid token_valid w1
      in (Inr \<lparr>h_status = ''healthy'', h_timestamp = clock w2, h_version = APP_VERSION cfg,
               h_token_valid = token_valid, h_cache_size = cache_size mc,
               h_cache_last_update = last_update_time mc\<rparr>, w2))"

subsection \<open>\<^verbatim>\<open>routes.py\<close>: the chat endpoints\<close>




subsection \<open>The request handler behind the chat endpoints\<close>







subsection \<open>\<^verbatim>\<open>middleware.py\<close>\<close>

definition uuid4 :: "world \<Rightarrow> string \<times> world" where
  "uuid4 w = (uuid_source w (uuid_count w), w\<lparr>uuid_count := Suc (uuid_count w)\<rparr>)"

text \<open>Lines 58 to 60 of \<^verbatim>\<open>dispatch\<close>: the header, or a new UUID when it is missing or empty.\<close>

definition get_request_id :: "request \<Rightarrow> world \<Rightarrow> string \<times> world" where
  "get_request_id req w =
     (case req_headers req ''X-Request-ID'' of
        None \<Rightarrow> uuid4 w
      | Some v \<Rightarrow> if v = [] then uuid4 w else (v, w))"

text \<open>
  \<^verbatim>\<open>with logger.contextualize(request_id=request_id)\<close> binds the id on entry and
  restores the previous binding on every exit of the block. \<^verbatim>\<open>except Exception\<close>
  handles an \<open>Exception e\<close> only; any other exception leaves through the context
  manager alone.
\<close>

definition RequestTrackingMiddleware_dispatch ::
  "request \<Rightarrow> (request \<Rightarrow> response io) \<Rightarrow> response io" where
  "RequestTrackingMiddleware_dispatch req call_next w =
     (let (request_id, w1) = get_request_id req w;
          start_time = clock w1;
          w2 = w1\<lparr>state_request_id := Some request_id\<rparr>;
          saved = log_context w2;
          w3 = w2\<lparr>log_context := Some request_id\<rparr>;
          w4 = logger_info (RequestStarted (http_method req) (url_path req) (url_query req)) w3
      in case call_next req w4 of
           (Inr resp, w5) \<Rightarrow>
             (let process_time = clock w5 - start_time;
                  resp1 = resp\<lparr>resp_headers := (resp_headers resp)(''X-Request-ID'' \<mapsto> HStr request_id)\<rparr>;
                  resp2 = resp1\<lparr>resp_headers := (resp_headers resp1)(''X-Process-Time'' \<mapsto> HRound4 process_time)\<rparr>;
                  w6 = logger_info (RequestCompleted (http_method req) (url_path req)
                                      (status_code resp2) process_time) w5
              in (Inr resp2, w6\<lparr>log_context := saved\<rparr>))
         | (Inl (Exception e), w5) \<Rightarrow>
             (let process_time = clock w5 - start_time;
                  w6 = logger_error (RequestFailed (http_method req) (url_path req) e process_time) w5
              in (Inl (Exception e), w6\<lparr>log_context := saved\<rparr>))
         | (Inl b, w5) \<Rightarrow> (Inl b, w5\<lparr>log_context := saved\<rparr>))"

text \<open>
  Modelled from the spec: \<^verbatim>\<open>metrics.inc_active_connections\<close>; the active-request
  gauge goes up by one.
\<close>

definition inc_active_connections :: "world \<Rightarrow> world" where
  "inc_active_connections w =
     w\<lparr>metrics_sink := (metrics_sink w)\<lparr>active_connections := active_connections (metrics_sink w) + 1\<rparr>\<rparr>"

text \<open>
  Modelled from the spec: \<^verbatim>\<open>metrics.dec_active_connections\<close>; the active-request
  gauge goes down by one.
\<close>

definition dec_active_connections :: "world \<Rightarrow> world" where
  "dec_active_connections w =
     w\<lparr>metrics_sink := (metrics_sink w)\<lparr>active_connections := active_connections (metrics_sink w) - 1\<rparr>\<rparr>"

text \<open>
  Modelled from the spec: \<^verbatim>\<open>metrics.inc_request\<close>; the request count of one
  endpoint, status and model goes up by one.
\<close>

definition inc_request :: "string \<Rightarrow> int \<Rightarrow> string \<Rightarrow> world \<Rightarrow> world" where
  "inc_request endpoint status model w =
     w\<lparr>metrics_sink := (metrics_sink w)\<lparr>request_count :=
        (request_count (metrics_sink w))
          ((endpoint, status, model) := Suc (request_count (metrics_sink w) (endpoint, status, model)))\<rparr>\<rparr>"

text \<open>
  Modelled from the spec: \<^verbatim>\<open>metrics.inc_error\<close>; the error count of one kind goes
  up by one.
\<close>

definition inc_error :: "string \<Rightarrow> world \<Rightarrow> world" where
  "inc_error kind w =
     w\<lparr>metrics_sink := (metrics_sink w)\<lparr>error_count :=
        (error_count (metrics_sink w))(kind := Suc (error_count (metrics_sink w) kind))\<rparr>\<rparr>"

text \<open>
  Modelled from the spec: \<^verbatim>\<open>metrics.observe_latency\<close>; the latency histogram of
  the endpoint gains one observation.
\<close>

definition observe_latency :: "string \<Rightarrow> real \<Rightarrow> world \<Rightarrow> world" where
  "observe_latency endpoint t w =
     w\<lparr>metrics_sink := (metrics_sink w)\<lparr>latency :=
        (latency (metrics_sink w))(endpoint := latency (metrics_sink w) endpoint @ [t])\<rparr>\<rparr>"

text \<open>
  The \<^verbatim>\<open>finally\<close> block runs on every exit, after the \<^verbatim>\<open>except\<close> block when
  that one ran.
\<close>

definition MetricsMiddleware_dispatch ::
  "request \<Rightarrow> (request \<Rightarrow> response io) \<Rightarrow> response io" where
  "MetricsMiddleware_dispatch req call_next w =
     (let start_time = clock w;
          endpoint = url_path req;
          model = ''unknown'';
          w1 = inc_active_connections w
      in case call_next req w1 of
           (Inr resp, w2) \<Rightarrow>
             (let process_time = clock w2 - start_time;
                  model1 = (case state_model w2 of Some m \<Rightarrow> m | None \<Rightarrow> model);
                  w3 = inc_request endpoint (status_code resp) model1 w2;
                  w4 = observe_latency endpoint process_time w3
              in (Inr resp, dec_active_connections w4))
         | (Inl (Exception e), w2) \<Rightarrow>
             (let process_time = clock w2 - start_time;
                  w3 = inc_request endpoint 500 model w2;
                  w4 = inc_error (type_name e) w3;
                  w5 = observe_latency endpoint process_time w4
              in (Inl (Exception e), dec_active_connections w5))
         | (Inl b, w2) \<Rightarrow> (Inl b, dec_active_connections w2))"

subsection \<open>Concrete inputs\<close>

text \<open>
  A configuration, a cache last refreshed at time 1000 with a time to live of 300
  seconds, a process whose clock reads 1301, requests and downstream handlers. The later
  sections evaluate the definitions on them.
\<close>

definition example_config :: config where
  "example_config =
     \<lparr>PROXY_API_KEY = ''secret'',
      AVAILABLE_MODELS = [''claude-sonnet-4'', ''claude-haiku-4.5''],
      APP_VERSION = ''1.0'',
      RATE_LIMIT_PER_MINUTE = 60\<rparr>"




definition example_metrics :: metrics where
  "example_metrics =
     \<lparr>request_count = (\<lambda>k. 0), error_count = (\<lambda>k. 0), latency = (\<lambda>k. []),
      active_connections = 3, cache_size_gauge = 0, token_valid_gauge = False\<rparr>"

definition example_cache :: model_info_cache where
  "example_cache =
     \<lparr>snapshot = [\<lparr>md_id = ''claude-sonnet-4'', md_owner_tag = ''anthropic'', md_description = []\<rparr>],
      last_update_time = Some 1000,
      cache_ttl = 300\<rparr>"

definition empty_cache :: model_info_cache where
  "empty_cache = \<lparr>snapshot = [], last_update_time = None, cache_ttl = 300\<rparr>"

definition example_auth_manager :: kiro_auth_manager where
  "example_auth_manager = \<lparr>access_token = Some ''token'', expires_at = 5000, safety_margin = 600\<rparr>"

definition example_world :: world where
  "example_world =
     \<lparr>clock = 1301,
      uuid_source = (\<lambda>n. if n = 0 then ''0b0e3d3a-5c1f-4c0a-9d55-2f3a8e1d7c10''
                          else if n = 1 then ''7d9f1c52-8a3b-4e6d-b0c4-91a2f5e8d733''
                          else ''c4a1e0f7-2b6d-4f38-a5e9-3d7b8c0f1a24''),
      uuid_count = 0,
      logs = [],
      log_context = None,
      metrics_sink = example_metrics,
      model_cache = example_cache,
      auth_manager = example_auth_manager,
      loop_tasks = Some [],
      state_request_id = None,
      state_model = None,
      limiter_hits = (\<lambda>k. [])\<rparr>"


definition example_request :: request where
  "example_request =
     \<lparr>http_method = ''GET'', url_path = ''/v1/models'', url_query = [],
      req_headers = [''Authorization'' \<mapsto> ''Bearer secret'', ''X-Request-ID'' \<mapsto> ''req-1''],
      req_body = NoBody,
      client_host = Some ''10.0.0.7''\<rparr>"



definition anonymous_request :: request where
  "anonymous_request = example_request\<lparr>req_headers := Map.empty\<rparr>"


definition example_response :: response where
  "example_response = \<lparr>status_code = 200, resp_headers = Map.empty, content = JObject []\<rparr>"


text \<open>A handler that answers after two seconds and records the model of the request.\<close>

definition ok_handler :: "request \<Rightarrow> response io" where
  "ok_handler req w =
     (Inr example_response, w\<lparr>clock := clock w + 2, state_model := Some ''claude-sonnet-4''\<rparr>)"

text \<open>A handler that raises a \<^verbatim>\<open>ValueError\<close> after one second.\<close>

definition failing_handler :: "request \<Rightarrow> response io" where
  "failing_handler req w =
     (Inl (Exception (OtherException ''ValueError'' ''bad value'')), w\<lparr>clock := clock w + 1\<rparr>)"

text \<open>A handler whose task is cancelled after one second (the client went away).\<close>

definition cancelled_handler :: "request \<Rightarrow> response io" where
  "cancelled_handler req w = (Inl CancelledError, w\<lparr>clock := clock w + 1\<rparr>)"


text \<open>An expiry check that fails.\<close>

definition broken_expiry_check :: "kiro_auth_manager \<Rightarrow> real \<Rightarrow> exception + bool" where
  "broken_expiry_check am now = Inl (TypeError ''unsupported operand'')"


text \<open>
  The state in which the tracking middleware calls the downstream handler for
  \<open>example_request\<close>: the request id is stored and bound, the start of the request is
  logged.
\<close>

definition example_entry_world :: world where
  "example_entry_world =
     logger_info (RequestStarted (http_method example_request) (url_path example_request)
         (url_query example_request))
       (example_world\<lparr>state_request_id := Some ''req-1'', log_context := Some ''req-1''\<rparr>)"

text \<open>The same for \<open>anonymous_request\<close>, whose id is the first value of the generator.\<close>

definition anonymous_entry_world :: world where
  "anonymous_entry_world =
     logger_info (RequestStarted (http_method anonymous_request) (url_path anonymous_request)
         (url_query anonymous_request))
       (example_world\<lparr>uuid_count := 1,
          state_request_id := Some ''0b0e3d3a-5c1f-4c0a-9d55-2f3a8e1d7c10'',
          log_context := Some ''0b0e3d3a-5c1f-4c0a-9d55-2f3a8e1d7c10''\<rparr>)"

section \<open>Properties\<close>

subsection \<open>Frame lemmas\<close>

text \<open>What each operation on the state leaves alone.\<close>

lemma logger_emit_fields:
  "clock (logger_emit l m w) = clock w"
  "log_context (logger_emit l m w) = log_context w"
  "metrics_sink (logger_emit l m w) = metrics_sink w"
  "model_cache (logger_emit l m w) = model_cache w"
  "auth_manager (logger_emit l m w) = auth_manager w"
  "loop_tasks (logger_emit l m w) = loop_tasks w"
  "state_request_id (logger_emit l m w) = state_request_id w"
  "state_model (logger_emit l m w) = state_model w"
  "uuid_count (logger_emit l m w) = uuid_count w"
  "logs (logger_emit l m w) = logs w @ [\<lparr>lr_level = l, lr_request_id = log_context w, lr_message = m\<rparr>]"
  by (simp_all add: logger_emit_def)


lemma get_request_id_fields:
  "clock (snd (get_request_id req w)) = clock w"
  "logs (snd (get_request_id req w)) = logs w"
  "log_context (snd (get_request_id req w)) = log_context w"
  by (simp_all add: get_request_id_def uuid4_def split: option.splits)

lemma inc_active_connections_fields:
  "clock (inc_active_connections w) = clock w"
  "active_connections (metrics_sink (inc_active_connections w)) = active_connections (metrics_sink w) + 1"
  "request_count (metrics_sink (inc_active_connections w)) = request_count (metrics_sink w)"
  "error_count (metrics_sink (inc_active_connections w)) = error_count (metrics_sink w)"
  "latency (metrics_sink (inc_active_connections w)) = latency (metrics_sink w)"
  by (simp_all add: inc_active_connections_def)

lemma dec_active_connections_fields:
  "active_connections (metrics_sink (dec_active_connections w)) = active_connections (metrics_sink w) - 1"
  "request_count (metrics_sink (dec_active_connections w)) = request_count (metrics_sink w)"
  "error_count (metrics_sink (dec_active_connections w)) = error_count (metrics_sink w)"
  "latency (metrics_sink (dec_active_connections w)) = latency (metrics_sink w)"
  by (simp_all add: dec_active_connections_def)

lemma inc_request_fields:
  "active_connections (metrics_sink (inc_request ep st m w)) = active_connections (metrics_sink w)"
  "request_count (metrics_sink (inc_request ep st m w)) =
     (request_count (metrics_sink w))((ep, st, m) := Suc (request_count (metrics_sink w) (ep, st, m)))"
  "error_count (metrics_sink (inc_request ep st m w)) = error_count (metrics_sink w)"
  "latency (metrics_sink (inc_request ep st m w)) = latency (metrics_sink w)"
  by (simp_all add: inc_request_def)

lemma inc_error_fields:
  "active_connections (metrics_sink (inc_error k w)) = active_connections (metrics_sink w)"
  "request_count (metrics_sink (inc_error k w)) = request_count (metrics_sink w)"
  "error_count (metrics_sink (inc_error k w)) =
     (error_count (metrics_sink w))(k := Suc (error_count (metrics_sink w) k))"
  "latency (metrics_sink (inc_error k w)) = latency (metrics_sink w)"
  by (simp_all add: inc_error_def)

lemma observe_latency_fields:
  "active_connections (metrics_sink (observe_latency ep t w)) = active_connections (metrics_sink w)"
  "request_count (metrics_sink (observe_latency ep t w)) = request_count (metrics_sink w)"
  "error_count (metrics_sink (observe_latency ep t w)) = error_count (metrics_sink w)"
  "latency (metrics_sink (observe_latency ep t w)) =
     (latency (metrics_sink w))(ep := latency (metrics_sink w) ep @ [t])"
  by (simp_all add: observe_latency_def)

lemmas metrics_fields =
  inc_active_connections_fields dec_active_connections_fields inc_request_fields
  inc_error_fields observe_latency_fields

lemma health_fields:
  "auth_manager (snd (health cfg expiring_soon req w)) = auth_manager w"
  "loop_tasks (snd (health cfg expiring_soon req w)) = loop_tasks w"
  "model_cache (snd (health cfg expiring_soon req w)) = model_cache w"
  by (simp_all add: health_def Let_def set_cache_size_def set_token_valid_def)

lemmas example_defs =
  example_world_def example_request_def example_response_def example_metrics_def
  ok_handler_def failing_handler_def cancelled_handler_def

subsection \<open>The model list\<close>

text \<open>
  C1: a call of GET /v1/models whose cache is empty or stale queues one refresh task on
  the event loop and does not run it: the cache is the same after the call. When no task
  can be queued the failure is logged as a warning. In every case (cache empty, stale,
  fresh, or the spawn failing) the call returns the static model list: one entry for each
  identifier of AVAILABLE_MODELS, in order, owned by "anthropic" and with the fixed
  description. When the cache is fresh no task is queued.
\<close>

theorem get_models_background_refresh:
  "fst (get_models cfg req w) =
     Inr \<lparr>data = map (\<lambda>m. \<lparr>model_id = m, owned_by = ''anthropic'', description = ''Claude model via Kiro API''\<rparr>)
                   (AVAILABLE_MODELS cfg)\<rparr>
   \<and> model_cache (snd (get_models cfg req w)) = model_cache w
   \<and> (is_empty (model_cache w) \<or> is_stale (model_cache w) (clock w) \<longrightarrow>
        (\<forall>ts. loop_tasks w = Some ts \<longrightarrow>
           loop_tasks (snd (get_models cfg req w)) = Some (ts @ [RefreshModelCache])
           \<and> logs (snd (get_models cfg req w)) =
               logs w @ [\<lparr>lr_level = INFO, lr_request_id = log_context w, lr_message = RequestToModels\<rparr>])
        \<and> (loop_tasks w = None \<longrightarrow>
           loop_tasks (snd (get_models cfg req w)) = None
           \<and> logs (snd (get_models cfg req w)) =
               logs w @ [\<lparr>lr_level = INFO, lr_request_id = log_context w, lr_message = RequestToModels\<rparr>,
                         \<lparr>lr_level = WARNING, lr_request_id = log_context w,
                          lr_message = RefreshTriggerFailed (RuntimeError ''no running event loop'')\<rparr>]))
   \<and> (\<not> (is_empty (model_cache w) \<or> is_stale (model_cache w) (clock w)) \<longrightarrow>
        loop_tasks (snd (get_models cfg req w)) = loop_tasks w
        \<and> logs (snd (get_models cfg req w)) =
            logs w @ [\<lparr>lr_level = INFO, lr_request_id = log_context w, lr_message = RequestToModels\<rparr>])"
  by (auto simp: get_models_def Let_def static_model_def logger_info_def logger_warning_def
      logger_emit_fields create_task_def split: option.splits)

text \<open>
  The stale-cache scenario of the spec: last refresh at 1000, time to live 300, the clock
  at 1301. Then the same call with no running event loop; with the clock at 1300, when
  the cache is not yet stale; and with a cache that was never filled.
\<close>

theorem get_models_background_refresh_witness:
  "is_stale (model_cache example_world) (clock example_world)
   \<and> \<not> is_empty (model_cache example_world)
   \<and> fst (get_models example_config example_request example_world) =
       Inr \<lparr>data = [\<lparr>model_id = ''claude-sonnet-4'', owned_by = ''anthropic'', description = ''Claude model via Kiro API''\<rparr>,
              \<lparr>model_id = ''claude-haiku-4.5'', owned_by = ''anthropic'', description = ''Claude model via Kiro API''\<rparr>]\<rparr>
   \<and> loop_tasks (snd (get_models example_config example_request example_world)) = Some [RefreshModelCache]
   \<and> model_cache (snd (get_models example_config example_request example_world)) = example_cache
   \<and> fst (get_models example_config example_request (example_world\<lparr>loop_tasks := None\<rparr>)) =
       Inr \<lparr>data = [\<lparr>model_id = ''claude-sonnet-4'', owned_by = ''anthropic'', description = ''Claude model via Kiro API''\<rparr>,
              \<lparr>model_id = ''claude-haiku-4.5'', owned_by = ''anthropic'', description = ''Claude model via Kiro API''\<rparr>]\<rparr>
   \<and> loop_tasks (snd (get_models example_config example_request (example_world\<lparr>loop_tasks := None\<rparr>))) = None
   \<and> \<not> is_stale (model_cache example_world) 1300
   \<and> loop_tasks (snd (get_models example_config example_request (example_world\<lparr>clock := 1300\<rparr>))) = Some []
   \<and> is_empty empty_cache
   \<and> loop_tasks (snd (get_models example_config example_request
         (example_world\<lparr>clock := 1300, model_cache := empty_cache\<rparr>))) = Some [RefreshModelCache]"
  using get_models_background_refresh [of example_config example_request example_world]
    get_models_background_refresh [of example_config example_request "example_world\<lparr>loop_tasks := None\<rparr>"]
    get_models_background_refresh [of example_config example_request "example_world\<lparr>clock := 1300\<rparr>"]
    get_models_background_refresh [of example_config example_request
      "example_world\<lparr>clock := 1300, model_cache := empty_cache\<rparr>"]
  by (simp add: example_world_def example_config_def example_cache_def empty_cache_def
      is_stale_def is_empty_def)

text \<open>
  C5: the response of GET /v1/models holds one entry per identifier of the static
  AVAILABLE_MODELS list, in order, each owned by "anthropic", whatever the model cache
  holds: replacing the cache by any other leaves the returned list the same.
\<close>

theorem get_models_static_list:
  "fst (get_models cfg req w) = Inr \<lparr>data = map static_model (AVAILABLE_MODELS cfg)\<rparr>
   \<and> map model_id (map static_model (AVAILABLE_MODELS cfg)) = AVAILABLE_MODELS cfg
   \<and> list_all (\<lambda>m. owned_by m = ''anthropic'') (map static_model (AVAILABLE_MODELS cfg))
   \<and> fst (get_models cfg req (w\<lparr>model_cache := c\<rparr>)) = fst (get_models cfg req w)"
  by (simp add: get_models_def Let_def static_model_def list_all_iff comp_def)

subsection \<open>API keys\<close>










text \<open>
  Outside ASCII the comparison raises: such a request ends with \<^verbatim>\<open>TypeError\<close>, not
  with 401, and a non-ASCII x-api-key header hides a valid Authorization header.
\<close>

lemma verify_api_key_non_ascii:
  "fst (verify_api_key example_config (Some (''Bearer '' @ [CHR 0xE9])) example_world)
     = Inl (TypeError ''comparing strings with non-ASCII characters is not supported'')"
  by (simp add: verify_api_key_def and_compare_digest_def compare_digest_def is_ascii_def)

lemma verify_anthropic_non_ascii:
  "fst (verify_anthropic_api_key example_config (Some [CHR 0xE9]) (Some ''Bearer secret'') example_world)
     = Inl (TypeError ''comparing strings with non-ASCII characters is not supported'')"
  by (simp add: verify_anthropic_api_key_def and_compare_digest_def compare_digest_def is_ascii_def)

subsection \<open>The metrics middleware\<close>

lemma MetricsMiddleware_dispatch_returned:
  assumes "call_next req (inc_active_connections w) = (Inr resp, w2)"
  shows "MetricsMiddleware_dispatch req call_next w =
     (Inr resp, dec_active_connections
        (observe_latency (url_path req) (clock w2 - clock w)
          (inc_request (url_path req) (status_code resp)
             (case state_model w2 of Some m \<Rightarrow> m | None \<Rightarrow> ''unknown'') w2)))"
  using assms by (simp add: MetricsMiddleware_dispatch_def Let_def)

lemma MetricsMiddleware_dispatch_exception:
  assumes "call_next req (inc_active_connections w) = (Inl (Exception e), w2)"
  shows "MetricsMiddleware_dispatch req call_next w =
     (Inl (Exception e), dec_active_connections
        (observe_latency (url_path req) (clock w2 - clock w)
          (inc_error (type_name e) (inc_request (url_path req) 500 ''unknown'' w2))))"
  using assms by (simp add: MetricsMiddleware_dispatch_def Let_def)

lemma MetricsMiddleware_dispatch_other:
  assumes "call_next req (inc_active_connections w) = (Inl b, w2)" and "\<forall>e. b \<noteq> Exception e"
  shows "MetricsMiddleware_dispatch req call_next w = (Inl b, dec_active_connections w2)"
  using assms by (cases b) (simp_all add: MetricsMiddleware_dispatch_def Let_def)

text \<open>
  C3, as amended: when the downstream handler returns a response, or raises an exception
  that is an instance of \<^verbatim>\<open>Exception\<close>, the metrics middleware adds one to the
  request counter of exactly one key {endpoint, status, model} and one observation to the
  latency histogram of the endpoint. On a response the status is the one of the response
  and the error counters are unchanged; on an exception the status is 500, the model is
  "unknown", the error counter of the exception's type name goes up by one, and the same
  exception leaves the middleware. When the handler raises anything that is not an
  instance of \<^verbatim>\<open>Exception\<close>, that exception leaves the middleware and no request
  count, error count or latency is recorded.
\<close>

theorem metrics_dispatch_records:
  "(call_next req (inc_active_connections w) = (Inr resp, w2) \<longrightarrow>
      fst (MetricsMiddleware_dispatch req call_next w) = Inr resp
      \<and> request_count (metrics_sink (snd (MetricsMiddleware_dispatch req call_next w))) =
          (request_count (metrics_sink w2))
            ((url_path req, status_code resp, case state_model w2 of Some m \<Rightarrow> m | None \<Rightarrow> ''unknown'') :=
               Suc (request_count (metrics_sink w2)
                 (url_path req, status_code resp, case state_model w2 of Some m \<Rightarrow> m | None \<Rightarrow> ''unknown'')))
      \<and> latency (metrics_sink (snd (MetricsMiddleware_dispatch req call_next w))) =
          (latency (metrics_sink w2))
            (url_path req := latency (metrics_sink w2) (url_path req) @ [clock w2 - clock w])
      \<and> error_count (metrics_sink (snd (MetricsMiddleware_dispatch req call_next w))) =
          error_count (metrics_sink w2))
   \<and> (call_next req (inc_active_connections w) = (Inl (Exception e), w2) \<longrightarrow>
      fst (MetricsMiddleware_dispatch req call_next w) = Inl (Exception e)
      \<and> request_count (metrics_sink (snd (MetricsMiddleware_dispatch req call_next w))) =
          (request_count (metrics_sink w2))
            ((url_path req, 500, ''unknown'') :=
               Suc (request_count (metrics_sink w2) (url_path req, 500, ''unknown'')))
      \<and> latency (metrics_sink (snd (MetricsMiddleware_dispatch req call_next w))) =
          (latency (metrics_sink w2))
            (url_path req := latency (metrics_sink w2) (url_path req) @ [clock w2 - clock w])
      \<and> error_count (metrics_sink (snd (MetricsMiddleware_dispatch req call_next w))) =
          (error_count (metrics_sink w2))(type_name e := Suc (error_count (metrics_sink w2) (type_name e))))
   \<and> (call_next req (inc_active_connections w) = (Inl b, w2) \<and> (\<forall>x. b \<noteq> Exception x) \<longrightarrow>
      fst (MetricsMiddleware_dispatch req call_next w) = Inl b
      \<and> request_count (metrics_sink (snd (MetricsMiddleware_dispatch req call_next w))) =
          request_count (metrics_sink w2)
      \<and> latency (metrics_sink (snd (MetricsMiddleware_dispatch req call_next w))) =
          latency (metrics_sink w2)
      \<and> error_count (metrics_sink (snd (MetricsMiddleware_dispatch req call_next w))) =
          error_count (metrics_sink w2))"
proof (intro conjI impI)
  assume r: "call_next req (inc_active_connections w) = (Inr resp, w2)"
  note d = MetricsMiddleware_dispatch_returned [where call_next = call_next and req = req and w = w, OF r]
  show "fst (MetricsMiddleware_dispatch req call_next w) = Inr resp"
    by (simp add: d)
  show "request_count (metrics_sink (snd (MetricsMiddleware_dispatch req call_next w))) =
          (request_count (metrics_sink w2))
            ((url_path req, status_code resp, case state_model w2 of Some m \<Rightarrow> m | None \<Rightarrow> ''unknown'') :=
               Suc (request_count (metrics_sink w2)
                 (url_path req, status_code resp, case state_model w2 of Some m \<Rightarrow> m | None \<Rightarrow> ''unknown'')))"
    by (simp only: d snd_conv metrics_fields)
  show "latency (metrics_sink (snd (MetricsMiddleware_dispatch req call_next w))) =
          (latency (metrics_sink w2))
            (url_path req := latency (metrics_sink w2) (url_path req) @ [clock w2 - clock w])"
    by (simp only: d snd_conv metrics_fields)
  show "error_count (metrics_sink (snd (MetricsMiddleware_dispatch req call_next w))) =
          error_count (metrics_sink w2)"
    by (simp only: d snd_conv metrics_fields)
next
  assume r: "call_next req (inc_active_connections w) = (Inl (Exception e), w2)"
  note d = MetricsMiddleware_dispatch_exception [where call_next = call_next and req = req and w = w, OF r]
  show "fst (MetricsMiddleware_dispatch req call_next w) = Inl (Exception e)"
    by (simp add: d)
  show "request_count (metrics_sink (snd (MetricsMiddleware_dispatch req call_next w))) =
          (request_count (metrics_sink w2))
            ((url_path req, 500, ''unknown'') :=
               Suc (request_count (metrics_sink w2) (url_path req, 500, ''unknown'')))"
    by (simp only: d snd_conv metrics_fields)
  show "latency (metrics_sink (snd (MetricsMiddleware_dispatch req call_next w))) =
          (latency (metrics_sink w2))
            (url_path req := latency (metrics_sink w2) (url_path req) @ [clock w2 - clock w])"
    by (simp only: d snd_conv metrics_fields)
  show "error_count (metrics_sink (snd (MetricsMiddleware_dispatch req call_next w))) =
          (error_count (metrics_sink w2))(type_name e := Suc (error_count (metrics_sink w2) (type_name e)))"
    by (simp only: d snd_conv metrics_fields)next
  assume r: "call_next req (inc_active_connections w) = (Inl b, w2) \<and> (\<forall>x. b \<noteq> Exception x)"
  then have r1: "call_next req (inc_active_connections w) = (Inl b, w2)"
    and r2: "\<forall>x. b \<noteq> Exception x"
    by blast+
  note d = MetricsMiddleware_dispatch_other [where call_next = call_next and req = req and w = w, OF r1 r2]
  show "fst (MetricsMiddleware_dispatch req call_next w) = Inl b"
    by (simp add: d)
  show "request_count (metrics_sink (snd (MetricsMiddleware_dispatch req call_next w))) =
          request_count (metrics_sink w2)"
    by (simp only: d snd_conv metrics_fields)
  show "latency (metrics_sink (snd (MetricsMiddleware_dispatch req call_next w))) =
          latency (metrics_sink w2)"
    by (simp only: d snd_conv metrics_fields)
  show "error_count (metrics_sink (snd (MetricsMiddleware_dispatch req call_next w))) =
          error_count (metrics_sink w2)"
    by (simp only: d snd_conv metrics_fields)
qed

text \<open>The example handlers, run by the metrics middleware on the example state.\<close>

lemma example_handlers_run:
  "ok_handler example_request (inc_active_connections example_world) =
     (Inr example_response,
      (inc_active_connections example_world)\<lparr>clock := 1303, state_model := Some ''claude-sonnet-4''\<rparr>)"
  "failing_handler example_request (inc_active_connections example_world) =
     (Inl (Exception (OtherException ''ValueError'' ''bad value'')),
      (inc_active_connections example_world)\<lparr>clock := 1302\<rparr>)"
  "cancelled_handler example_request (inc_active_connections example_world) =
     (Inl CancelledError, (inc_active_connections example_world)\<lparr>clock := 1302\<rparr>)"
  by (simp_all add: ok_handler_def failing_handler_def cancelled_handler_def
      inc_active_connections_def example_world_def)

text \<open>
  A handler that answers with 200 after two seconds, one that raises after one, and one
  that is cancelled.
\<close>

theorem metrics_dispatch_records_witness:
  "fst (MetricsMiddleware_dispatch example_request ok_handler example_world) = Inr example_response
   \<and> request_count (metrics_sink (snd (MetricsMiddleware_dispatch example_request ok_handler example_world)))
        (''/v1/models'', 200, ''claude-sonnet-4'') = 1
   \<and> latency (metrics_sink (snd (MetricsMiddleware_dispatch example_request ok_handler example_world)))
        ''/v1/models'' = [2]
   \<and> fst (MetricsMiddleware_dispatch example_request failing_handler example_world) =
        Inl (Exception (OtherException ''ValueError'' ''bad value''))
   \<and> request_count (metrics_sink (snd (MetricsMiddleware_dispatch example_request failing_handler example_world)))
        (''/v1/models'', 500, ''unknown'') = 1
   \<and> error_count (metrics_sink (snd (MetricsMiddleware_dispatch example_request failing_handler example_world)))
        ''ValueError'' = 1
   \<and> latency (metrics_sink (snd (MetricsMiddleware_dispatch example_request failing_handler example_world)))
        ''/v1/models'' = [1]
   \<and> fst (MetricsMiddleware_dispatch example_request cancelled_handler example_world) = Inl CancelledError
   \<and> request_count (metrics_sink (snd (MetricsMiddleware_dispatch example_request cancelled_handler example_world)))
        (''/v1/models'', 500, ''unknown'') = 0
   \<and> latency (metrics_sink (snd (MetricsMiddleware_dispatch example_request cancelled_handler example_world)))
        ''/v1/models'' = []"
  using metrics_dispatch_records [of ok_handler example_request example_world example_response
      "snd (ok_handler example_request (inc_active_connections example_world))"]
    metrics_dispatch_records [of failing_handler example_request example_world _
      "snd (failing_handler example_request (inc_active_connections example_world))"
      "OtherException ''ValueError'' ''bad value''"]
    metrics_dispatch_records [of cancelled_handler example_request example_world _
      "snd (cancelled_handler example_request (inc_active_connections example_world))" _ CancelledError]
  by (simp add: ok_handler_def failing_handler_def cancelled_handler_def inc_active_connections_def example_world_def
      example_metrics_def example_request_def example_response_def)

text \<open>
  C3 as stated fails for an exception that \<^verbatim>\<open>except Exception\<close> does not catch:
  when the handler is cancelled, no request is counted and no latency is observed.
\<close>

theorem metrics_dispatch_cancelled_counterexample:
  "fst (MetricsMiddleware_dispatch example_request cancelled_handler example_world) = Inl CancelledError
   \<and> request_count (metrics_sink (snd (MetricsMiddleware_dispatch example_request cancelled_handler example_world)))
       = request_count (metrics_sink example_world)
   \<and> latency (metrics_sink (snd (MetricsMiddleware_dispatch example_request cancelled_handler example_world)))
       = latency (metrics_sink example_world)
   \<and> error_count (metrics_sink (snd (MetricsMiddleware_dispatch example_request cancelled_handler example_world)))
       = error_count (metrics_sink example_world)"
  by (simp add: MetricsMiddleware_dispatch_def Let_def example_handlers_run metrics_fields)

text \<open>
  C10: the metrics middleware raises the gauge of active connections by one before it
  calls the handler and lowers it by one on every exit, whether the handler returns,
  raises an \<^verbatim>\<open>Exception\<close> or raises anything else. So when the handler leaves the
  gauge as it found it, the gauge after the middleware is the gauge before the request.
\<close>

theorem active_connections_balanced:
  "active_connections (metrics_sink (inc_active_connections w)) = active_connections (metrics_sink w) + 1
   \<and> active_connections (metrics_sink (snd (MetricsMiddleware_dispatch req call_next w))) =
       active_connections (metrics_sink (snd (call_next req (inc_active_connections w)))) - 1
   \<and> (active_connections (metrics_sink (snd (call_next req (inc_active_connections w)))) =
        active_connections (metrics_sink (inc_active_connections w)) \<longrightarrow>
      active_connections (metrics_sink (snd (MetricsMiddleware_dispatch req call_next w))) =
        active_connections (metrics_sink w))"
proof -
  obtain out w2 where r: "call_next req (inc_active_connections w) = (out, w2)"
    by (cases "call_next req (inc_active_connections w)")
  have "active_connections (metrics_sink (snd (MetricsMiddleware_dispatch req call_next w))) =
       active_connections (metrics_sink w2) - 1"
  proof (cases out)
    case (Inr resp)
    with r show ?thesis
      by (simp add: MetricsMiddleware_dispatch_returned metrics_fields)
  next
    case (Inl b)
    show ?thesis
    proof (cases b)
      case (Exception e)
      with r Inl show ?thesis
        by (simp add: MetricsMiddleware_dispatch_exception metrics_fields)
    next
      case CancelledError
      with r Inl show ?thesis
        by (simp add: MetricsMiddleware_dispatch_other metrics_fields)
    next
      case (OtherBaseException n m)
      with r Inl show ?thesis
        by (simp add: MetricsMiddleware_dispatch_other metrics_fields)
    qed
  qed
  with r show ?thesis
    by (simp add: metrics_fields)
qed

text \<open>The gauge is 3 before and after, for a response, an exception and a cancellation.\<close>

theorem active_connections_balanced_witness:
  "active_connections (metrics_sink example_world) = 3
   \<and> active_connections (metrics_sink (snd (MetricsMiddleware_dispatch example_request ok_handler example_world))) = 3
   \<and> active_connections (metrics_sink (snd (MetricsMiddleware_dispatch example_request failing_handler example_world))) = 3
   \<and> active_connections (metrics_sink (snd (MetricsMiddleware_dispatch example_request cancelled_handler example_world))) = 3"
  using active_connections_balanced [of example_world example_request ok_handler]
    active_connections_balanced [of example_world example_request failing_handler]
    active_connections_balanced [of example_world example_request cancelled_handler]
  by (simp add: ok_handler_def failing_handler_def cancelled_handler_def inc_active_connections_def
      example_world_def example_metrics_def)

subsection \<open>The tracking middleware\<close>

lemma RequestTrackingMiddleware_dispatch_returned:
  assumes "get_request_id req w = (rid, w1)"
    and "w4 = logger_info (RequestStarted (http_method req) (url_path req) (url_query req))
                (w1\<lparr>state_request_id := Some rid, log_context := Some rid\<rparr>)"
    and "call_next req w4 = (Inr resp, w5)"
  shows "RequestTrackingMiddleware_dispatch req call_next w =
     (Inr (resp\<lparr>resp_headers := (resp_headers resp)
              (''X-Request-ID'' \<mapsto> HStr rid, ''X-Process-Time'' \<mapsto> HRound4 (clock w5 - clock w))\<rparr>),
      (logger_info (RequestCompleted (http_method req) (url_path req) (status_code resp)
          (clock w5 - clock w)) w5)\<lparr>log_context := log_context w\<rparr>)"
proof -
  have "clock w1 = clock w" "log_context w1 = log_context w"
    using get_request_id_fields [of req w] assms(1) by simp_all
  with assms show ?thesis
    by (simp add: RequestTrackingMiddleware_dispatch_def Let_def)
qed

lemma RequestTrackingMiddleware_dispatch_exception:
  assumes "get_request_id req w = (rid, w1)"
    and "w4 = logger_info (RequestStarted (http_method req) (url_path req) (url_query req))
                (w1\<lparr>state_request_id := Some rid, log_context := Some rid\<rparr>)"
    and "call_next req w4 = (Inl (Exception e), w5)"
  shows "RequestTrackingMiddleware_dispatch req call_next w =
     (Inl (Exception e),
      (logger_error (RequestFailed (http_method req) (url_path req) e (clock w5 - clock w)) w5)
        \<lparr>log_context := log_context w\<rparr>)"
proof -
  have "clock w1 = clock w" "log_context w1 = log_context w"
    using get_request_id_fields [of req w] assms(1) by simp_all
  with assms show ?thesis
    by (simp add: RequestTrackingMiddleware_dispatch_def Let_def)
qed

lemma RequestTrackingMiddleware_dispatch_other:
  assumes "get_request_id req w = (rid, w1)"
    and "w4 = logger_info (RequestStarted (http_method req) (url_path req) (url_query req))
                (w1\<lparr>state_request_id := Some rid, log_context := Some rid\<rparr>)"
    and "call_next req w4 = (Inl b, w5)" and "\<forall>e. b \<noteq> Exception e"
  shows "RequestTrackingMiddleware_dispatch req call_next w = (Inl b, w5\<lparr>log_context := log_context w\<rparr>)"
proof -
  have "log_context w1 = log_context w"
    using get_request_id_fields [of req w] assms(1) by simp
  with assms show ?thesis
    by (cases b) (simp_all add: RequestTrackingMiddleware_dispatch_def Let_def)
qed

text \<open>
  C6, as amended: the tracking middleware binds the correlation id to the logging context
  and logs the start of the request under it before the handler runs. When the handler,
  which leaves the binding in place, returns a response, a completion record with the
  status and the elapsed time is logged under that id; when it raises an exception that
  is an instance of \<^verbatim>\<open>Exception\<close>, an error record with the exception and the
  elapsed time is logged under that id and the exception leaves the middleware. When it
  raises anything that is not an instance of \<^verbatim>\<open>Exception\<close>, that exception leaves
  the middleware and nothing is logged at the exit. On every exit the previous binding of
  the context is restored.
\<close>

theorem tracking_dispatch_logs:
  assumes g: "get_request_id req w = (rid, w1)"
    and e: "w4 = logger_info (RequestStarted (http_method req) (url_path req) (url_query req))
                (w1\<lparr>state_request_id := Some rid, log_context := Some rid\<rparr>)"
    and c: "call_next req w4 = (out, w5)"
    and p: "log_context w5 = log_context w4"
  shows "log_context w4 = Some rid
     \<and> logs w4 = logs w @ [\<lparr>lr_level = INFO, lr_request_id = Some rid,
           lr_message = RequestStarted (http_method req) (url_path req) (url_query req)\<rparr>]
     \<and> (out = Inr resp \<longrightarrow>
          logs (snd (RequestTrackingMiddleware_dispatch req call_next w)) =
            logs w5 @ [\<lparr>lr_level = INFO, lr_request_id = Some rid,
              lr_message = RequestCompleted (http_method req) (url_path req) (status_code resp)
                (clock w5 - clock w)\<rparr>])
     \<and> (out = Inl (Exception ex) \<longrightarrow>
          fst (RequestTrackingMiddleware_dispatch req call_next w) = Inl (Exception ex)
          \<and> logs (snd (RequestTrackingMiddleware_dispatch req call_next w)) =
            logs w5 @ [\<lparr>lr_level = ERROR, lr_request_id = Some rid,
              lr_message = RequestFailed (http_method req) (url_path req) ex (clock w5 - clock w)\<rparr>])
     \<and> (out = Inl b \<and> (\<forall>x. b \<noteq> Exception x) \<longrightarrow>
          fst (RequestTrackingMiddleware_dispatch req call_next w) = Inl b
          \<and> logs (snd (RequestTrackingMiddleware_dispatch req call_next w)) = logs w5)
     \<and> log_context (snd (RequestTrackingMiddleware_dispatch req call_next w)) = log_context w"
proof (intro conjI impI)
  have l1: "logs w1 = logs w"
    using get_request_id_fields [of req w] g by simp
  show b: "log_context w4 = Some rid"
    by (simp add: e logger_info_def logger_emit_fields)
  show "logs w4 = logs w @ [\<lparr>lr_level = INFO, lr_request_id = Some rid,
           lr_message = RequestStarted (http_method req) (url_path req) (url_query req)\<rparr>]"
    by (simp add: e logger_info_def logger_emit_fields l1)
  show "log_context (snd (RequestTrackingMiddleware_dispatch req call_next w)) = log_context w"
  proof (cases out)
    case (Inr resp')
    with c have "call_next req w4 = (Inr resp', w5)" by simp
    from RequestTrackingMiddleware_dispatch_returned [where call_next = call_next, OF g e this] show ?thesis by simp
  next
    case (Inl bx)
    show ?thesis
    proof (cases bx)
      case (Exception e')
      with c Inl have "call_next req w4 = (Inl (Exception e'), w5)" by simp
      from RequestTrackingMiddleware_dispatch_exception [where call_next = call_next, OF g e this] show ?thesis by simp
    next
      case CancelledError
      with c Inl have "call_next req w4 = (Inl bx, w5)" "\<forall>e. bx \<noteq> Exception e" by simp_all
      from RequestTrackingMiddleware_dispatch_other [where call_next = call_next, OF g e this] show ?thesis by simp
    next
      case (OtherBaseException n m)
      with c Inl have "call_next req w4 = (Inl bx, w5)" "\<forall>e. bx \<noteq> Exception e" by simp_all
      from RequestTrackingMiddleware_dispatch_other [where call_next = call_next, OF g e this] show ?thesis by simp
    qed
  qed
  {
    assume "out = Inr resp"
    with c have "call_next req w4 = (Inr resp, w5)" by simp
    from RequestTrackingMiddleware_dispatch_returned [where call_next = call_next, OF g e this]
    show "logs (snd (RequestTrackingMiddleware_dispatch req call_next w)) =
            logs w5 @ [\<lparr>lr_level = INFO, lr_request_id = Some rid,
              lr_message = RequestCompleted (http_method req) (url_path req) (status_code resp)
                (clock w5 - clock w)\<rparr>]"
      by (simp add: logger_info_def logger_emit_fields p b)
  }
  {
    assume "out = Inl (Exception ex)"
    with c have "call_next req w4 = (Inl (Exception ex), w5)" by simp
    note d = RequestTrackingMiddleware_dispatch_exception [where call_next = call_next, OF g e this]
    show "fst (RequestTrackingMiddleware_dispatch req call_next w) = Inl (Exception ex)"
      by (simp add: d)
    show "logs (snd (RequestTrackingMiddleware_dispatch req call_next w)) =
            logs w5 @ [\<lparr>lr_level = ERROR, lr_request_id = Some rid,
              lr_message = RequestFailed (http_method req) (url_path req) ex (clock w5 - clock w)\<rparr>]"
      by (simp add: d logger_error_def logger_emit_fields p b)
  }
  {
    assume o: "out = Inl b \<and> (\<forall>x. b \<noteq> Exception x)"
    with c have c1: "call_next req w4 = (Inl b, w5)" and c2: "\<forall>x. b \<noteq> Exception x"
      by blast+
    note d = RequestTrackingMiddleware_dispatch_other [where call_next = call_next, OF g e c1 c2]
    show "fst (RequestTrackingMiddleware_dispatch req call_next w) = Inl b"
      by (simp add: d)
    show "logs (snd (RequestTrackingMiddleware_dispatch req call_next w)) = logs w5"
      by (simp add: d)
  }
qed

text \<open>The log of a request that is answered, of one that fails, and of one that is cancelled.\<close>

theorem tracking_dispatch_logs_witness:
  "get_request_id example_request example_world = (''req-1'', example_world)
   \<and> logs (snd (RequestTrackingMiddleware_dispatch example_request ok_handler example_world)) =
       [\<lparr>lr_level = INFO, lr_request_id = Some ''req-1'',
         lr_message = RequestStarted ''GET'' ''/v1/models'' []\<rparr>,
        \<lparr>lr_level = INFO, lr_request_id = Some ''req-1'',
         lr_message = RequestCompleted ''GET'' ''/v1/models'' 200 2\<rparr>]
   \<and> logs (snd (RequestTrackingMiddleware_dispatch example_request failing_handler example_world)) =
       [\<lparr>lr_level = INFO, lr_request_id = Some ''req-1'',
         lr_message = RequestStarted ''GET'' ''/v1/models'' []\<rparr>,
        \<lparr>lr_level = ERROR, lr_request_id = Some ''req-1'',
         lr_message = RequestFailed ''GET'' ''/v1/models'' (OtherException ''ValueError'' ''bad value'') 1\<rparr>]
   \<and> fst (RequestTrackingMiddleware_dispatch example_request cancelled_handler example_world) = Inl CancelledError
   \<and> logs (snd (RequestTrackingMiddleware_dispatch example_request cancelled_handler example_world)) =
       logs example_entry_world"
  using tracking_dispatch_logs [where req = example_request and w = example_world and rid = "''req-1''"
      and ?w1.0 = example_world and ?w4.0 = example_entry_world and call_next = ok_handler
      and out = "Inr example_response" and ?w5.0 = "snd (ok_handler example_request example_entry_world)"
      and resp = example_response]
    tracking_dispatch_logs [where req = example_request and w = example_world and rid = "''req-1''"
      and ?w1.0 = example_world and ?w4.0 = example_entry_world and call_next = failing_handler
      and out = "Inl (Exception (OtherException ''ValueError'' ''bad value''))"
      and ?w5.0 = "snd (failing_handler example_request example_entry_world)"
      and ex = "OtherException ''ValueError'' ''bad value''"]
    tracking_dispatch_logs [where req = example_request and w = example_world and rid = "''req-1''"
      and ?w1.0 = example_world and ?w4.0 = example_entry_world and call_next = cancelled_handler
      and out = "Inl CancelledError"
      and ?w5.0 = "snd (cancelled_handler example_request example_entry_world)"
      and b = CancelledError]
  by (simp add: example_entry_world_def get_request_id_def logger_info_def logger_emit_def example_defs)

text \<open>
  C6 as stated fails for an exception that \<^verbatim>\<open>except Exception\<close> does not catch:
  when the handler is cancelled, the start of the request is the only record in the log.
\<close>

theorem tracking_dispatch_cancelled_counterexample:
  "fst (RequestTrackingMiddleware_dispatch example_request cancelled_handler example_world) = Inl CancelledError
   \<and> logs (snd (RequestTrackingMiddleware_dispatch example_request cancelled_handler example_world)) =
       [\<lparr>lr_level = INFO, lr_request_id = Some ''req-1'',
         lr_message = RequestStarted ''GET'' ''/v1/models'' []\<rparr>]"
  by (simp add: RequestTrackingMiddleware_dispatch_def Let_def get_request_id_def logger_info_def
      logger_emit_def example_defs)

text \<open>
  C9: a non-empty X-Request-ID header of the request is the correlation id, and no UUID
  is drawn; when the header is missing or empty the id is the next value of the UUID
  generator, which is consumed: the generator advances by one, so that the next generated
  id is the next value, different from this one whenever the generator gives different
  values. The handler runs with the id stored in the request state and bound to the
  logging context, and a response that it returns leaves the middleware with that id in
  its X-Request-ID header and the elapsed time in its X-Process-Time header. Two requests
  with the same non-empty header have the same correlation id, whatever the state of the
  process.
\<close>

theorem request_id_correlation:
  "(req_headers req ''X-Request-ID'' = Some v \<and> v \<noteq> [] \<longrightarrow> get_request_id req w = (v, w))
   \<and> (req_headers req ''X-Request-ID'' = None \<or> req_headers req ''X-Request-ID'' = Some [] \<longrightarrow>
        get_request_id req w = (uuid_source w (uuid_count w), w\<lparr>uuid_count := Suc (uuid_count w)\<rparr>))
   \<and> ((req_headers req ''X-Request-ID'' = None \<or> req_headers req ''X-Request-ID'' = Some [])
        \<and> (req_headers req' ''X-Request-ID'' = None \<or> req_headers req' ''X-Request-ID'' = Some [])
        \<and> uuid_source w (Suc (uuid_count w)) \<noteq> uuid_source w (uuid_count w) \<longrightarrow>
        fst (get_request_id req' (snd (get_request_id req w))) = uuid_source w (Suc (uuid_count w))
        \<and> fst (get_request_id req' (snd (get_request_id req w))) \<noteq> fst (get_request_id req w))
   \<and> (get_request_id req w = (rid, w1)
        \<and> w4 = logger_info (RequestStarted (http_method req) (url_path req) (url_query req))
                 (w1\<lparr>state_request_id := Some rid, log_context := Some rid\<rparr>)
        \<and> call_next req w4 = (Inr resp, w5) \<longrightarrow>
        state_request_id w4 = Some rid
        \<and> log_context w4 = Some rid
        \<and> uuid_count w4 = uuid_count w1
        \<and> fst (RequestTrackingMiddleware_dispatch req call_next w) =
            Inr (resp\<lparr>resp_headers := (resp_headers resp)
              (''X-Request-ID'' \<mapsto> HStr rid, ''X-Process-Time'' \<mapsto> HRound4 (clock w5 - clock w))\<rparr>))
   \<and> (req_headers req ''X-Request-ID'' = Some v \<and> req_headers req' ''X-Request-ID'' = Some v \<and> v \<noteq> [] \<longrightarrow>
        fst (get_request_id req w) = fst (get_request_id req' w'))"
proof (intro conjI impI)
  assume "req_headers req ''X-Request-ID'' = Some v \<and> v \<noteq> []"
  then show "get_request_id req w = (v, w)"
    by (simp add: get_request_id_def)
next
  assume "req_headers req ''X-Request-ID'' = None \<or> req_headers req ''X-Request-ID'' = Some []"
  then show "get_request_id req w = (uuid_source w (uuid_count w), w\<lparr>uuid_count := Suc (uuid_count w)\<rparr>)"
    by (auto simp: get_request_id_def uuid4_def)
next
  assume "req_headers req ''X-Request-ID'' = Some v \<and> req_headers req' ''X-Request-ID'' = Some v \<and> v \<noteq> []"
  then show "fst (get_request_id req w) = fst (get_request_id req' w')"
    by (simp add: get_request_id_def)
next
  assume a: "(req_headers req ''X-Request-ID'' = None \<or> req_headers req ''X-Request-ID'' = Some [])
        \<and> (req_headers req' ''X-Request-ID'' = None \<or> req_headers req' ''X-Request-ID'' = Some [])
        \<and> uuid_source w (Suc (uuid_count w)) \<noteq> uuid_source w (uuid_count w)"
  then have first: "get_request_id req w = (uuid_source w (uuid_count w), w\<lparr>uuid_count := Suc (uuid_count w)\<rparr>)"
    by (auto simp: get_request_id_def uuid4_def)
  from a have second: "fst (get_request_id req' (w\<lparr>uuid_count := Suc (uuid_count w)\<rparr>)) =
      uuid_source w (Suc (uuid_count w))"
    by (auto simp: get_request_id_def uuid4_def)
  show "fst (get_request_id req' (snd (get_request_id req w))) = uuid_source w (Suc (uuid_count w))"
    by (simp add: first second)
  from a show "fst (get_request_id req' (snd (get_request_id req w))) \<noteq> fst (get_request_id req w)"
    by (simp add: first second)
next
  assume a: "get_request_id req w = (rid, w1)
        \<and> w4 = logger_info (RequestStarted (http_method req) (url_path req) (url_query req))
                 (w1\<lparr>state_request_id := Some rid, log_context := Some rid\<rparr>)
        \<and> call_next req w4 = (Inr resp, w5)"
  then show "state_request_id w4 = Some rid" "log_context w4 = Some rid" "uuid_count w4 = uuid_count w1"
    by (simp_all add: logger_info_def logger_emit_fields)
  from a have g: "get_request_id req w = (rid, w1)"
    by blast
  from a have e: "w4 = logger_info (RequestStarted (http_method req) (url_path req) (url_query req))
                 (w1\<lparr>state_request_id := Some rid, log_context := Some rid\<rparr>)"
    by blast
  from a have c: "call_next req w4 = (Inr resp, w5)"
    by blast
  from RequestTrackingMiddleware_dispatch_returned [where call_next = call_next, OF g e c]
  show "fst (RequestTrackingMiddleware_dispatch req call_next w) =
            Inr (resp\<lparr>resp_headers := (resp_headers resp)
              (''X-Request-ID'' \<mapsto> HStr rid, ''X-Process-Time'' \<mapsto> HRound4 (clock w5 - clock w))\<rparr>)"
    by simp
qed

text \<open>
  A request with the header "req-1", and two requests without headers one after the
  other: they get the first and the second value of the generator.
\<close>

theorem request_id_correlation_witness:
  "req_headers example_request ''X-Request-ID'' = Some ''req-1''
   \<and> get_request_id example_request example_world = (''req-1'', example_world)
   \<and> req_headers anonymous_request ''X-Request-ID'' = None
   \<and> get_request_id anonymous_request example_world =
       (''0b0e3d3a-5c1f-4c0a-9d55-2f3a8e1d7c10'', example_world\<lparr>uuid_count := 1\<rparr>)
   \<and> fst (get_request_id anonymous_request (snd (get_request_id anonymous_request example_world))) =
       ''7d9f1c52-8a3b-4e6d-b0c4-91a2f5e8d733''
   \<and> fst (RequestTrackingMiddleware_dispatch example_request ok_handler example_world) =
       Inr \<lparr>status_code = 200,
            resp_headers = [''X-Request-ID'' \<mapsto> HStr ''req-1'', ''X-Process-Time'' \<mapsto> HRound4 2],
            content = JObject []\<rparr>
   \<and> fst (RequestTrackingMiddleware_dispatch anonymous_request ok_handler example_world) =
       Inr \<lparr>status_code = 200,
            resp_headers = [''X-Request-ID'' \<mapsto> HStr ''0b0e3d3a-5c1f-4c0a-9d55-2f3a8e1d7c10'',
                            ''X-Process-Time'' \<mapsto> HRound4 2],
            content = JObject []\<rparr>"
  using request_id_correlation [where req = example_request and w = example_world and v = "''req-1''"
      and rid = "''req-1''" and ?w1.0 = example_world and ?w4.0 = example_entry_world
      and call_next = ok_handler and resp = example_response
      and ?w5.0 = "snd (ok_handler example_request example_entry_world)" and req' = example_request]
    request_id_correlation [where req = anonymous_request and req' = anonymous_request
      and w = example_world and w' = example_world and v = "''req-1''"
      and rid = "''0b0e3d3a-5c1f-4c0a-9d55-2f3a8e1d7c10''"
      and ?w1.0 = "example_world\<lparr>uuid_count := 1\<rparr>" and ?w4.0 = anonymous_entry_world
      and call_next = ok_handler and resp = example_response
      and ?w5.0 = "snd (ok_handler anonymous_request anonymous_entry_world)"]
  by (simp add: example_entry_world_def anonymous_entry_world_def get_request_id_def uuid4_def
      anonymous_request_def logger_info_def logger_emit_def example_defs)

subsection \<open>Health\<close>

text \<open>
  C7: the health endpoint leaves the auth manager as it is and queues no task; it always
  returns a report; \<open>token_valid\<close> is true if and only if a token is held (neither
  \<^verbatim>\<open>None\<close> nor empty) and the expiry check says it is not expiring soon; when the
  check raises, \<open>token_valid\<close> is false. With the check of the spec, the token is valid
  if and only if it is held and the clock is before the expiry time less the safety margin.
\<close>

theorem health_token_check_read_only:
  "auth_manager (snd (health cfg expiring_soon req w)) = auth_manager w
   \<and> loop_tasks (snd (health cfg expiring_soon req w)) = loop_tasks w
   \<and> (\<exists>rep. fst (health cfg expiring_soon req w) = Inr rep
        \<and> h_status rep = ''healthy''
        \<and> token_valid_gauge (metrics_sink (snd (health cfg expiring_soon req w))) = h_token_valid rep
        \<and> (expiring_soon (auth_manager w) (clock w) = Inr soon \<longrightarrow>
             h_token_valid rep =
               (access_token (auth_manager w) \<noteq> None \<and> access_token (auth_manager w) \<noteq> Some [] \<and> \<not> soon))
        \<and> (expiring_soon (auth_manager w) (clock w) = Inl e \<longrightarrow> h_token_valid rep = False))
   \<and> (fst (health cfg is_token_expiring_soon req w) = Inr rep' \<longrightarrow>
        h_token_valid rep' =
          (access_token (auth_manager w) \<noteq> None \<and> access_token (auth_manager w) \<noteq> Some []
           \<and> \<not> clock w \<ge> expires_at (auth_manager w) - safety_margin (auth_manager w)))"
proof (intro conjI)
  show "auth_manager (snd (health cfg expiring_soon req w)) = auth_manager w"
    by (rule health_fields)
  show "loop_tasks (snd (health cfg expiring_soon req w)) = loop_tasks w"
    by (rule health_fields)
  show "\<exists>rep. fst (health cfg expiring_soon req w) = Inr rep
        \<and> h_status rep = ''healthy''
        \<and> token_valid_gauge (metrics_sink (snd (health cfg expiring_soon req w))) = h_token_valid rep
        \<and> (expiring_soon (auth_manager w) (clock w) = Inr soon \<longrightarrow>
             h_token_valid rep =
               (access_token (auth_manager w) \<noteq> None \<and> access_token (auth_manager w) \<noteq> Some [] \<and> \<not> soon))
        \<and> (expiring_soon (auth_manager w) (clock w) = Inl e \<longrightarrow> h_token_valid rep = False)"
    by (auto simp: health_def Let_def set_cache_size_def set_token_valid_def split: option.splits)
  show "fst (health cfg is_token_expiring_soon req w) = Inr rep' \<longrightarrow>
        h_token_valid rep' =
          (access_token (auth_manager w) \<noteq> None \<and> access_token (auth_manager w) \<noteq> Some []
           \<and> \<not> clock w \<ge> expires_at (auth_manager w) - safety_margin (auth_manager w))"
    by (auto simp: health_def Let_def is_token_expiring_soon_def split: option.splits)
qed

text \<open>A held token that expires at 5000 with a margin of 600, at time 1301; and a check that raises.\<close>

theorem health_token_check_read_only_witness:
  "is_token_expiring_soon (auth_manager example_world) (clock example_world) = Inr False
   \<and> fst (health example_config is_token_expiring_soon example_request example_world) =
       Inr \<lparr>h_status = ''healthy'', h_timestamp = 1301, h_version = ''1.0'', h_token_valid = True,
            h_cache_size = 1, h_cache_last_update = Some 1000\<rparr>
   \<and> broken_expiry_check (auth_manager example_world) (clock example_world) =
       Inl (TypeError ''unsupported operand'')
   \<and> fst (health example_config broken_expiry_check example_request example_world) =
       Inr \<lparr>h_status = ''healthy'', h_timestamp = 1301, h_version = ''1.0'', h_token_valid = False,
            h_cache_size = 1, h_cache_last_update = Some 1000\<rparr>
   \<and> auth_manager (snd (health example_config broken_expiry_check example_request example_world)) =
       example_auth_manager"
  using health_token_check_read_only [of example_config is_token_expiring_soon example_request
      example_world False]
    health_token_check_read_only [of example_config broken_expiry_check example_request
      example_world _ "TypeError ''unsupported operand''"]
  by (simp add: health_def Let_def is_token_expiring_soon_def broken_expiry_check_def
      set_cache_size_def set_token_valid_def cache_size_def
      example_world_def example_config_def example_cache_def example_auth_manager_def)

subsection \<open>The chat endpoints and the model cache\<close>









subsection \<open>Rate limiting\<close>



end
